theory Spec2Isabelle
  imports Main "HOL-Library.Sublist"
begin

section \<open>The lecture model of \<^verbatim>\<open>lectures/model.py\<close>\<close>

text \<open>
  A shallow embedding of the resource model, the notes model and the lecture group of
  \<^verbatim>\<open>src/fin_model_course/lectures/model.py\<close>. Python strings are \<^typ>\<open>string\<close>,
  \<^verbatim>\<open>Optional[T]\<close> is \<^typ>\<open>'a option\<close>, a raised exception is the left
  summand of a sum type.
\<close>

subsection \<open>Python strings\<close>

text \<open>The three characters of the templates that are written by their code.\<close>

definition newline :: char where
  "newline = CHR 0x0A"

definition backtick :: char where
  "backtick = CHR 0x60"

definition backslash :: char where
  "backslash = CHR 0x5C"

text \<open>\<^verbatim>\<open>sep.join(parts)\<close>.\<close>

fun join :: "string \<Rightarrow> string list \<Rightarrow> string" where
  "join sep [] = []"
| "join sep [x] = x"
| "join sep (x # y # ys) = x @ sep @ join sep (y # ys)"

text \<open>\<^verbatim>\<open>str(n)\<close> of an integer, as the f-string \<^verbatim>\<open>f"{self.index} "\<close> formats it.\<close>

definition digit_char :: "nat \<Rightarrow> char" where
  "digit_char d = ''0123456789'' ! d"

fun str_nat :: "nat \<Rightarrow> string" where
  "str_nat n = (if n < 10 then [digit_char n] else str_nat (n div 10) @ [digit_char (n mod 10)])"

declare str_nat.simps [simp del]

definition str_int :: "int \<Rightarrow> string" where
  "str_int i = (if i < 0 then CHR ''-'' # str_nat (nat (- i)) else str_nat (nat i))"

text \<open>An f-string field holding an \<^verbatim>\<open>Optional[str]\<close>: \<^verbatim>\<open>None\<close> prints as \<^verbatim>\<open>None\<close>.\<close>

definition format_optional :: "string option \<Rightarrow> string" where
  "format_optional v = (case v of None \<Rightarrow> ''None'' | Some s \<Rightarrow> s)"

text \<open>\<^verbatim>\<open>text.replace('_', '\_')\<close>.\<close>

definition replace_underscore :: "string \<Rightarrow> string" where
  "replace_underscore text = concat (map (\<lambda>c. if c = CHR ''_'' then [backslash, CHR ''_''] else [c]) text)"

subsection \<open>Exceptions\<close>

text \<open>
  The only exception the modelled functions raise themselves is \<^verbatim>\<open>ValueError\<close>
  (\<^verbatim>\<open>to_rst_bullet_content\<close> and \<^verbatim>\<open>LectureResource.to_rst\<close>); the \<^verbatim>\<open>to_rst\<close> method of
  an object of another class may raise any exception, named by its class. A failed attribute
  read (\<^verbatim>\<open>AttributeError\<close>) is the value \<^const>\<open>None\<close> of \<open>getattr\<close> below.
\<close>

datatype error = ValueError | OtherError string

subsection \<open>LectureResource\<close>

text \<open>
  A \<^verbatim>\<open>datetime.datetime\<close> is used through its \<^verbatim>\<open>strftime\<close> method only, a function
  of the standard library from the format to the text; the object is modelled by that method.
\<close>

record datetime =
  strftime :: "string \<Rightarrow> string"

record lecture_resource =
  name :: string
  static_url :: "string option"
  external_url :: "string option"
  updated :: "datetime option"
  index :: "int option"
  datetime_fmt :: string

text \<open>The \<^verbatim>\<open>url\<close> property.\<close>

definition LectureResource_url :: "lecture_resource \<Rightarrow> string option" where
  "LectureResource_url self =
     (case static_url self of
        Some s \<Rightarrow> Some (''/_static/'' @ s)
      | None \<Rightarrow>
          (case external_url self of
             Some e \<Rightarrow> Some e
           | None \<Rightarrow> None))"

text \<open>The \<^verbatim>\<open>display_name\<close> property; the three bindings are the three updates of \<^verbatim>\<open>name\<close>.\<close>

definition LectureResource_display_name :: "lecture_resource \<Rightarrow> string" where
  "LectureResource_display_name self =
     (let name1 = (case index self of Some i \<Rightarrow> str_int i @ '' '' | None \<Rightarrow> '''');
          name2 = name1 @ name self;
          name3 = (case updated self of
                     Some u \<Rightarrow> name2 @ '' (updated '' @ strftime u (datetime_fmt self) @ '')''
                   | None \<Rightarrow> name2)
      in name3)"

text \<open>
  \<^verbatim>\<open>_to_download_rst\<close> and \<^verbatim>\<open>_to_external_link_rst\<close>: a triple-quoted f-string that starts
  with a line break and ends with a line break and the eight spaces before the closing quotes.
\<close>

definition LectureResource_to_download_rst :: "lecture_resource \<Rightarrow> string" where
  "LectureResource_to_download_rst self =
     [newline] @ ''- :download:'' @ [backtick] @ LectureResource_display_name self @ '' <''
       @ format_optional (LectureResource_url self) @ ''>'' @ [backtick]
       @ [newline] @ ''        ''"

definition LectureResource_to_external_link_rst :: "lecture_resource \<Rightarrow> string" where
  "LectureResource_to_external_link_rst self =
     [newline] @ ''- '' @ [backtick] @ LectureResource_display_name self @ '' <''
       @ format_optional (LectureResource_url self) @ ''>'' @ [backtick] @ ''_''
       @ [newline] @ ''        ''"

definition LectureResource_to_rst :: "lecture_resource \<Rightarrow> error + string" where
  "LectureResource_to_rst self =
     (if static_url self \<noteq> None then Inr (LectureResource_to_download_rst self)
      else if external_url self \<noteq> None then Inr (LectureResource_to_external_link_rst self)
      else Inl ValueError)"

subsection \<open>The values that occur as items\<close>

text \<open>
  What \<^verbatim>\<open>Equation.to_pyexlatex\<close> and \<^verbatim>\<open>Link.to_pyexlatex\<close> build, \<^verbatim>\<open>pl.Equation(str_eq=latex)\<close>
  and \<^verbatim>\<open>Hyperlink(str(href), display_text)\<close>, and what the method of any other object returns.
\<close>

datatype pyex = PlEquation string | Hyperlink string "string option" | PyexObject nat

text \<open>
  The three attributes that \<^verbatim>\<open>LectureResource.__eq__\<close> reads, and the values it can find
  there: a string, \<^verbatim>\<open>None\<close>, or a value of another type.
\<close>

datatype attr_name = Name | StaticUrl | ExternalUrl

datatype attr_val = AStr string | ANone | AOther nat

text \<open>
  An object of any other class is described by what the functions of the module observe of it:
  which of the three attributes it has, and whether it has a \<^verbatim>\<open>to_rst\<close> and a
  \<^verbatim>\<open>to_pyexlatex\<close> method (\<^const>\<open>None\<close>: no such attribute). The outcome of the call
  \<^verbatim>\<open>to_rst()\<close> is the string it returns or the exception it raises. A \<^verbatim>\<open>Lecture\<close> and a
  \<^verbatim>\<open>LectureGroup\<close> are such objects: \<open>Lecture_item\<close> and \<open>LectureGroup_item\<close> below.
\<close>

record py_object =
  obj_attrs :: "(attr_name \<times> attr_val) list"
  obj_to_rst :: "(error + string) option"
  obj_to_pyexlatex :: "pyex option"

text \<open>
  An item is a \<^verbatim>\<open>str\<close>, a list or tuple, a \<^verbatim>\<open>LectureNotes\<close>, an \<^verbatim>\<open>Equation\<close>, a
  \<^verbatim>\<open>Link\<close> (its \<^verbatim>\<open>href\<close> as text), a \<^verbatim>\<open>LectureResource\<close> or another object.
\<close>

datatype pyval =
    Str string
  | Seq "pyval list"
  | Notes lecture_notes
  | Eqn string
  | LinkV string "string option"
  | Res lecture_resource
  | Obj py_object
and lecture_notes =
    LectureNotes (items: "pyval list") (title: string)

fun isinstance_str :: "pyval \<Rightarrow> bool" where
  "isinstance_str (Str s) = True"
| "isinstance_str v = False"

fun isinstance_list_tuple :: "pyval \<Rightarrow> bool" where
  "isinstance_list_tuple (Seq xs) = True"
| "isinstance_list_tuple v = False"

text \<open>
  \<^verbatim>\<open>hasattr(item, 'to_rst')\<close>: the classes \<^verbatim>\<open>LectureNotes\<close>, \<^verbatim>\<open>Equation\<close>, \<^verbatim>\<open>Link\<close> and
  \<^verbatim>\<open>LectureResource\<close> define the method, \<^verbatim>\<open>str\<close>, \<^verbatim>\<open>list\<close> and \<^verbatim>\<open>tuple\<close> do not.
\<close>

fun hasattr_to_rst :: "pyval \<Rightarrow> bool" where
  "hasattr_to_rst (Str s) = False"
| "hasattr_to_rst (Seq xs) = False"
| "hasattr_to_rst (Notes n) = True"
| "hasattr_to_rst (Eqn latex) = True"
| "hasattr_to_rst (LinkV href display_text) = True"
| "hasattr_to_rst (Res r) = True"
| "hasattr_to_rst (Obj ob) = (obj_to_rst ob \<noteq> None)"

text \<open>
  \<^verbatim>\<open>item.to_pyexlatex()\<close> where the attribute exists (\<^verbatim>\<open>Equation\<close>, \<^verbatim>\<open>Link\<close>, and the other
  objects that have it), \<^const>\<open>None\<close> where \<^verbatim>\<open>hasattr(item, 'to_pyexlatex')\<close> is false.
\<close>

fun to_pyexlatex :: "pyval \<Rightarrow> pyex option" where
  "to_pyexlatex (Eqn latex) = Some (PlEquation latex)"
| "to_pyexlatex (LinkV href display_text) = Some (Hyperlink href display_text)"
| "to_pyexlatex (Obj ob) = obj_to_pyexlatex ob"
| "to_pyexlatex v = None"

subsection \<open>Equality of resources\<close>

text \<open>
  The attribute read \<^verbatim>\<open>other.name\<close>, \<^verbatim>\<open>other.static_url\<close>, \<^verbatim>\<open>other.external_url\<close>;
  \<^const>\<open>None\<close> is the \<^verbatim>\<open>AttributeError\<close>. Strings, lists, tuples, notes, equations and links
  have none of the three attributes.
\<close>

definition attr_of_optional :: "string option \<Rightarrow> attr_val" where
  "attr_of_optional v = (case v of None \<Rightarrow> ANone | Some s \<Rightarrow> AStr s)"

fun getattr :: "pyval \<Rightarrow> attr_name \<Rightarrow> attr_val option" where
  "getattr (Res r) Name = Some (AStr (name r))"
| "getattr (Res r) StaticUrl = Some (attr_of_optional (static_url r))"
| "getattr (Res r) ExternalUrl = Some (attr_of_optional (external_url r))"
| "getattr (Obj ob) a = map_of (obj_attrs ob) a"
| "getattr v a = None"

text \<open>
  \<^verbatim>\<open>__eq__\<close>: the three comparisons are evaluated in the order of the list, the first
  \<^verbatim>\<open>AttributeError\<close> leaves the \<^verbatim>\<open>try\<close> block and the result is \<^verbatim>\<open>False\<close>.
\<close>

definition LectureResource_eq :: "lecture_resource \<Rightarrow> pyval \<Rightarrow> bool" where
  "LectureResource_eq self other =
     (case getattr other Name of
        None \<Rightarrow> False
      | Some other_name \<Rightarrow>
          (case getattr other StaticUrl of
             None \<Rightarrow> False
           | Some other_static_url \<Rightarrow>
               (case getattr other ExternalUrl of
                  None \<Rightarrow> False
                | Some other_external_url \<Rightarrow>
                    list_all (\<lambda>b. b)
                      [AStr (name self) = other_name,
                       attr_of_optional (static_url self) = other_static_url,
                       attr_of_optional (external_url self) = other_external_url])))"

subsection \<open>Lecture and LectureGroup\<close>

text \<open>
  The dataclasses with all their fields; the field \<^verbatim>\<open>notes\<close> of a lecture is written
  \<open>notes'\<close>, the plain name being reserved.
\<close>

record lecture =
  title :: string
  week_covered :: int
  notes' :: "lecture_notes option"
  youtube_id :: "string option"
  resources :: "lecture_resource list option"

record lecture_group =
  title :: string
  description :: string
  lectures :: "lecture list"
  order :: "int + string"
  global_resources :: "lecture_resource list"

text \<open>\<^verbatim>\<open>resource in resources\<close>: some element of the list equals the resource.\<close>

definition resource_in :: "lecture_resource \<Rightarrow> lecture_resource list \<Rightarrow> bool" where
  "resource_in resource rs = list_ex (\<lambda>e. LectureResource_eq resource (Res e)) rs"

text \<open>
  The \<^verbatim>\<open>resources\<close> property. The inner loop runs over the resources of one lecture, the outer
  loop over the lectures; \<^verbatim>\<open>if lecture.resources\<close> skips \<^verbatim>\<open>None\<close> and the empty sequence.
\<close>

fun resources_of_lecture :: "lecture_resource list \<Rightarrow> lecture_resource list \<Rightarrow> lecture_resource list" where
  "resources_of_lecture acc [] = acc"
| "resources_of_lecture acc (resource # rest) =
     resources_of_lecture (if \<not> resource_in resource acc then acc @ [resource] else acc) rest"

fun resources_of_lectures :: "lecture_resource list \<Rightarrow> lecture list \<Rightarrow> lecture_resource list" where
  "resources_of_lectures acc [] = acc"
| "resources_of_lectures acc (lec # rest) =
     resources_of_lectures
       (case resources lec of
          None \<Rightarrow> acc
        | Some rs \<Rightarrow> if rs \<noteq> [] then resources_of_lecture acc rs else acc)
       rest"

definition LectureGroup_resources :: "lecture_group \<Rightarrow> lecture_resource list" where
  "LectureGroup_resources self = resources_of_lectures (global_resources self) (lectures self)"

text \<open>\<^verbatim>\<open>lectures_for_week\<close>: the list comprehension.\<close>

definition LectureGroup_lectures_for_week :: "lecture_group \<Rightarrow> int \<Rightarrow> lecture list" where
  "LectureGroup_lectures_for_week self week_num = [exc \<leftarrow> lectures self. week_covered exc = week_num]"

text \<open>The resources of the lectures in the order in which the loops of \<^verbatim>\<open>resources\<close> visit them.\<close>

definition scanned_resources :: "lecture list \<Rightarrow> lecture_resource list" where
  "scanned_resources ls = concat (map (\<lambda>lec. case resources lec of None \<Rightarrow> [] | Some rs \<Rightarrow> rs) ls)"

text \<open>
  From position \<open>n\<close> on, no element of the list equals an element before it.
\<close>

definition fresh_from :: "nat \<Rightarrow> lecture_resource list \<Rightarrow> bool" where
  "fresh_from n rs =
     list_all (\<lambda>j. list_all (\<lambda>i. \<not> LectureResource_eq (rs ! j) (Res (rs ! i))) [0..<j])
       [n..<length rs]"

subsection \<open>Rendering notes as reStructuredText\<close>

text \<open>\<^verbatim>\<open>Equation.to_rst\<close> and \<^verbatim>\<open>Link.to_rst\<close> (an empty display text is falsy).\<close>

definition Equation_to_rst :: "string \<Rightarrow> string" where
  "Equation_to_rst latex = '':math:'' @ [backtick] @ latex @ [backtick]"

definition Link_to_rst :: "string \<Rightarrow> string option \<Rightarrow> string" where
  "Link_to_rst href display_text =
     (case display_text of
        None \<Rightarrow> [backtick] @ ''<'' @ href @ ''>'' @ [backtick] @ ''_''
      | Some t \<Rightarrow>
          if t \<noteq> [] then
            [backtick] @ replace_underscore t @ '' <'' @ href @ ''>'' @ [backtick] @ ''_''
          else [backtick] @ ''<'' @ href @ ''>'' @ [backtick] @ ''_'')"

text \<open>
  The results of a sequence of calls made in order: the first exception ends the sequence and
  is the outcome, otherwise all the returned values.
\<close>

fun results :: "(error + 'a) list \<Rightarrow> error + 'a list" where
  "results [] = Inr []"
| "results (Inl e # rs) = Inl e"
| "results (Inr v # rs) = (case results rs of Inl e \<Rightarrow> Inl e | Inr vs \<Rightarrow> Inr (v # vs))"

text \<open>
  \<^verbatim>\<open>to_rst_bullet_content\<close> and \<^verbatim>\<open>LectureNotes.to_rst\<close>, which call each other: a notes
  object is an item with a \<^verbatim>\<open>to_rst\<close> method. The list comprehension of the list branch and the
  loop of \<^verbatim>\<open>to_rst\<close> are the calls on the elements in order; \<^verbatim>\<open>itertools.chain\<close> and
  \<^verbatim>\<open>lines.extend\<close> concatenate what the calls return.
\<close>

function to_rst_bullet_content :: "pyval \<Rightarrow> error + string list"
  and LectureNotes_to_rst :: "lecture_notes \<Rightarrow> error + string"
where
  "to_rst_bullet_content (Str s) = Inr [s]"
| "to_rst_bullet_content (Seq sub_items) =
     (case results (map to_rst_bullet_content sub_items) of
        Inl e \<Rightarrow> Inl e
      | Inr parts \<Rightarrow> Inr [join '' '' (concat parts)])"
| "to_rst_bullet_content (Notes n) =
     (case LectureNotes_to_rst n of Inl e \<Rightarrow> Inl e | Inr s \<Rightarrow> Inr [s])"
| "to_rst_bullet_content (Eqn latex) = Inr [Equation_to_rst latex]"
| "to_rst_bullet_content (LinkV href display_text) = Inr [Link_to_rst href display_text]"
| "to_rst_bullet_content (Res r) =
     (case LectureResource_to_rst r of Inl e \<Rightarrow> Inl e | Inr s \<Rightarrow> Inr [s])"
| "to_rst_bullet_content (Obj ob) =
     (case obj_to_rst ob of
        Some outcome \<Rightarrow> (case outcome of Inl e \<Rightarrow> Inl e | Inr s \<Rightarrow> Inr [s])
      | None \<Rightarrow> Inl ValueError)"
| "LectureNotes_to_rst (LectureNotes its t) =
     (case results (map to_rst_bullet_content its) of
        Inl e \<Rightarrow> Inl e
      | Inr ls \<Rightarrow>
          Inr ([newline] @ join [newline] (map (\<lambda>line. ''- '' @ line) (concat ls)) @ [newline]))"
  by pat_completeness auto
termination
  by (relation "measure (\<lambda>v. case v of Inl item \<Rightarrow> size item | Inr n \<Rightarrow> size n)")
     (auto simp: less_Suc_eq_le size_list_estimation')

text \<open>
  The call \<^verbatim>\<open>item.to_rst()\<close> on an item that has the attribute (\<^const>\<open>None\<close> where it has
  not): its outcome is a string or an exception.
\<close>

fun to_rst_method :: "pyval \<Rightarrow> (error + string) option" where
  "to_rst_method (Notes n) = Some (LectureNotes_to_rst n)"
| "to_rst_method (Eqn latex) = Some (Inr (Equation_to_rst latex))"
| "to_rst_method (LinkV href display_text) = Some (Inr (Link_to_rst href display_text))"
| "to_rst_method (Res r) = Some (LectureResource_to_rst r)"
| "to_rst_method (Obj ob) = obj_to_rst ob"
| "to_rst_method v = None"

subsection \<open>Rendering notes as a document tree\<close>

text \<open>
  The classes passed as \<^verbatim>\<open>top_model\<close> and \<^verbatim>\<open>sub_model\<close> (\<^verbatim>\<open>pl.Section\<close> and
  \<^verbatim>\<open>pl.UnorderedList\<close> by default) belong to the document library. A value of the output is an
  item kept as it is, the result of a \<^verbatim>\<open>to_pyexlatex\<close> call, an instance \<^verbatim>\<open>cls(contents)\<close> or
  \<^verbatim>\<open>cls(contents, title=t)\<close> of a model class, or the plain list that is returned when
  \<^verbatim>\<open>top_model\<close> is \<^verbatim>\<open>None\<close>. An instance of a model class is not a \<^verbatim>\<open>str\<close> and has no
  \<^verbatim>\<open>to_pyexlatex\<close> attribute.
\<close>

datatype model_class = Section | UnorderedList | ModelClass string

datatype doc =
    Item pyval
  | Pyex pyex
  | Model model_class "doc list" "string option"
  | ListOf "doc list"

fun isinstance_str_doc :: "doc \<Rightarrow> bool" where
  "isinstance_str_doc (Item v) = isinstance_str v"
| "isinstance_str_doc d = False"

fun doc_to_pyexlatex :: "doc \<Rightarrow> pyex option" where
  "doc_to_pyexlatex (Item v) = to_pyexlatex v"
| "doc_to_pyexlatex d = None"

text \<open>The second loop of \<^verbatim>\<open>to_models\<close> with its two accumulators, and what follows the loop.\<close>

fun collect_strs :: "model_class \<Rightarrow> doc list \<Rightarrow> doc list \<Rightarrow> doc list \<Rightarrow> doc list" where
  "collect_strs sub_model [] final_items current_str_items =
     (if current_str_items \<noteq> [] then final_items @ [Model sub_model current_str_items None]
      else final_items)"
| "collect_strs sub_model (item # rest) final_items current_str_items =
     (if isinstance_str_doc item then
        collect_strs sub_model rest final_items (current_str_items @ [item])
      else
        (case doc_to_pyexlatex item of
           Some p \<Rightarrow> collect_strs sub_model rest final_items (current_str_items @ [Pyex p])
         | None \<Rightarrow>
             if current_str_items \<noteq> [] then
               collect_strs sub_model rest
                 ((final_items @ [Model sub_model current_str_items None]) @ [item]) []
             else
               collect_strs sub_model rest (final_items @ [item]) current_str_items))"

text \<open>\<^verbatim>\<open>LectureNotes.to_models\<close>: the first loop is the \<^const>\<open>map\<close>.\<close>

function LectureNotes_to_models :: "lecture_notes \<Rightarrow> model_class option \<Rightarrow> model_class \<Rightarrow> doc" where
  "LectureNotes_to_models (LectureNotes its t) top_model sub_model =
     (let items1 = map (\<lambda>item. case item of
                          Notes m \<Rightarrow> LectureNotes_to_models m (Some sub_model) sub_model
                        | _ \<Rightarrow> Item item) its;
          final_items = collect_strs sub_model items1 [] []
      in case top_model of
           Some cls \<Rightarrow> Model cls final_items (Some t)
         | None \<Rightarrow> ListOf final_items)"
  by pat_completeness auto
termination
  by (relation "measure (\<lambda>(n, top_model, sub_model). size n)")
     (auto simp: less_Suc_eq_le
           dest: size_list_estimation' [where f = size and y = "size (Notes m)" for m])

subsection \<open>The document tree as the specification words it\<close>

text \<open>
  A string item in the sense of the specification: a \<^verbatim>\<open>str\<close>, or an item that exposes
  \<^verbatim>\<open>to_pyexlatex\<close>; the latter enters its run serialized.
\<close>

definition string_item :: "doc \<Rightarrow> bool" where
  "string_item d = (isinstance_str_doc d \<or> doc_to_pyexlatex d \<noteq> None)"

definition serialized :: "doc \<Rightarrow> doc" where
  "serialized d =
     (if isinstance_str_doc d then d
      else case doc_to_pyexlatex d of Some p \<Rightarrow> Pyex p | None \<Rightarrow> d)"

text \<open>
  Every maximal run of consecutive string items becomes one instance of the sub model; every
  other item stays where it is.
\<close>

function maximal_runs :: "model_class \<Rightarrow> doc list \<Rightarrow> doc list" where
  "maximal_runs sub_model [] = []"
| "maximal_runs sub_model (x # xs) =
     (if string_item x then
        Model sub_model (map serialized (x # takeWhile string_item xs)) None
          # maximal_runs sub_model (dropWhile string_item xs)
      else x # maximal_runs sub_model xs)"
  by pat_completeness auto
termination
  by (relation "measure (\<lambda>(sub_model, xs). length xs)")
     (auto simp: less_Suc_eq_le length_dropWhile_le)

function to_models_spec :: "lecture_notes \<Rightarrow> model_class option \<Rightarrow> model_class \<Rightarrow> doc" where
  "to_models_spec (LectureNotes its t) top_model sub_model =
     (let final_items =
            maximal_runs sub_model
              (map (\<lambda>item. case item of
                      Notes m \<Rightarrow> to_models_spec m (Some sub_model) sub_model
                    | _ \<Rightarrow> Item item) its)
      in case top_model of
           Some cls \<Rightarrow> Model cls final_items (Some t)
         | None \<Rightarrow> ListOf final_items)"
  by pat_completeness auto
termination
  by (relation "measure (\<lambda>(n, top_model, sub_model). size n)")
     (auto simp: less_Suc_eq_le
           dest: size_list_estimation' [where f = size and y = "size (Notes m)" for m])

subsection \<open>Predicates on items\<close>

text \<open>
  An item that can be rendered: a string; a list or tuple, or a notes object, of items that can
  be rendered; an equation or a link; a resource with a link; another object with a
  \<^verbatim>\<open>to_rst\<close> method whose call returns.
\<close>

fun renderable :: "pyval \<Rightarrow> bool" where
  "renderable (Str s) = True"
| "renderable (Seq sub_items) = list_all renderable sub_items"
| "renderable (Notes (LectureNotes its t)) = list_all renderable its"
| "renderable (Eqn latex) = True"
| "renderable (LinkV href display_text) = True"
| "renderable (Res r) = (static_url r \<noteq> None \<or> external_url r \<noteq> None)"
| "renderable (Obj ob) = (case obj_to_rst ob of Some (Inr s) \<Rightarrow> True | _ \<Rightarrow> False)"

text \<open>A notes tree of strings and sub-notes only, at every depth.\<close>

fun notes_tree :: "lecture_notes \<Rightarrow> bool" where
  "notes_tree (LectureNotes its t) =
     list_all (\<lambda>item. case item of Str s \<Rightarrow> True | Notes m \<Rightarrow> notes_tree m | _ \<Rightarrow> False) its"

subsection \<open>Lecture and LectureGroup as text\<close>

text \<open>
  \<^verbatim>\<open>Lecture.to_rst\<close> and \<^verbatim>\<open>LectureGroup.to_rst\<close>. The function \<^verbatim>\<open>header_rst\<close> of
  \<^verbatim>\<open>build_tools.ext_rst\<close> is a parameter (a title and a level give the text of a header).
  A block of resources is the header, a line break, the texts of the resources joined by line
  breaks, and a line break; the first \<^verbatim>\<open>to_rst\<close> of a resource that raises ends the rendering.
\<close>

definition resources_block ::
  "(string \<Rightarrow> int \<Rightarrow> string) \<Rightarrow> int \<Rightarrow> lecture_resource list \<Rightarrow> error + string" where
  "resources_block header_rst level rs =
     (case results (map LectureResource_to_rst rs) of
        Inl e \<Rightarrow> Inl e
      | Inr texts \<Rightarrow>
          Inr (header_rst ''Resources'' level @ [newline] @ join [newline] texts @ [newline]))"

definition Lecture_youtube_rst :: "lecture \<Rightarrow> string" where
  "Lecture_youtube_rst self =
     (case youtube_id self of
        None \<Rightarrow> []
      | Some y \<Rightarrow>
          [newline] @ ''.. youtube:: '' @ y @ [newline]
            @ ''    :height: 315'' @ [newline]
            @ ''    :width: 560'' @ [newline]
            @ ''    :align: center'' @ [newline]
            @ [newline]
            @ ''|'' @ [newline]
            @ ''            '')"

definition Lecture_notes_rst :: "(string \<Rightarrow> int \<Rightarrow> string) \<Rightarrow> lecture \<Rightarrow> error + string" where
  "Lecture_notes_rst header_rst self =
     (case notes' self of
        None \<Rightarrow> Inr []
      | Some n \<Rightarrow>
          (case LectureNotes_to_rst n of
             Inl e \<Rightarrow> Inl e
           | Inr s \<Rightarrow> Inr (header_rst ''Notes'' 4 @ s)))"

definition Lecture_resources_rst :: "(string \<Rightarrow> int \<Rightarrow> string) \<Rightarrow> lecture \<Rightarrow> error + string" where
  "Lecture_resources_rst header_rst self =
     (case resources self of
        None \<Rightarrow> Inr []
      | Some rs \<Rightarrow> if rs \<noteq> [] then resources_block header_rst 4 rs else Inr [])"

definition Lecture_to_rst :: "(string \<Rightarrow> int \<Rightarrow> string) \<Rightarrow> lecture \<Rightarrow> error + string" where
  "Lecture_to_rst header_rst self =
     (case Lecture_notes_rst header_rst self of
        Inl e \<Rightarrow> Inl e
      | Inr notes_rst \<Rightarrow>
          (case Lecture_resources_rst header_rst self of
             Inl e \<Rightarrow> Inl e
           | Inr resources_rst \<Rightarrow>
               Inr (header_rst (lecture.title self) 3 @ Lecture_youtube_rst self
                      @ notes_rst @ resources_rst)))"

definition LectureGroup_to_rst :: "(string \<Rightarrow> int \<Rightarrow> string) \<Rightarrow> lecture_group \<Rightarrow> error + string" where
  "LectureGroup_to_rst header_rst self =
     (case (if LectureGroup_resources self \<noteq> []
            then resources_block header_rst 3 (LectureGroup_resources self) else Inr []) of
        Inl e \<Rightarrow> Inl e
      | Inr resources_rst \<Rightarrow>
          (case results (map (Lecture_to_rst header_rst) (lectures self)) of
             Inl e \<Rightarrow> Inl e
           | Inr lecture_rsts \<Rightarrow>
               Inr (header_rst (lecture_group.title self) 2
                      @ [newline] @ description self @ [newline]
                      @ resources_rst @ concat lecture_rsts)))"

text \<open>
  A lecture and a lecture group as items: neither class has one of the attributes \<^verbatim>\<open>name\<close>,
  \<^verbatim>\<open>static_url\<close>, \<^verbatim>\<open>external_url\<close>, nor \<^verbatim>\<open>to_pyexlatex\<close>; both have \<^verbatim>\<open>to_rst\<close>.
\<close>

definition Lecture_item :: "(string \<Rightarrow> int \<Rightarrow> string) \<Rightarrow> lecture \<Rightarrow> pyval" where
  "Lecture_item header_rst lec =
     Obj \<lparr>obj_attrs = [], obj_to_rst = Some (Lecture_to_rst header_rst lec), obj_to_pyexlatex = None\<rparr>"

definition LectureGroup_item :: "(string \<Rightarrow> int \<Rightarrow> string) \<Rightarrow> lecture_group \<Rightarrow> pyval" where
  "LectureGroup_item header_rst g =
     Obj \<lparr>obj_attrs = [], obj_to_rst = Some (LectureGroup_to_rst header_rst g), obj_to_pyexlatex = None\<rparr>"

subsection \<open>The text lines of a string\<close>

text \<open>
  \<^verbatim>\<open>s.split('\n')\<close>: the pieces of a string between its line breaks. The content lines of
  a string are the pieces that are not empty.
\<close>

fun split_lines :: "string \<Rightarrow> string list" where
  "split_lines [] = [[]]"
| "split_lines (c # cs) =
     (if c = newline then [] # split_lines cs
      else (case split_lines cs of
              [] \<Rightarrow> [[c]]
            | l # ls \<Rightarrow> (c # l) # ls))"


subsection \<open>Constructor calls\<close>

text \<open>
  The calls \<^verbatim>\<open>LectureResource(name, static_url=.., external_url=..)\<close>,
  \<^verbatim>\<open>Lecture(title, week_covered, resources=..)\<close> and
  \<^verbatim>\<open>LectureGroup(title, description, lectures, order, global_resources)\<close> with the other
  fields at the defaults of the dataclasses.
\<close>

definition LectureResource_init :: "string \<Rightarrow> string option \<Rightarrow> string option \<Rightarrow> lecture_resource" where
  "LectureResource_init n s e =
     \<lparr>name = n, static_url = s, external_url = e, updated = None, index = None,
      datetime_fmt = ''%B%e, %l:%M %p''\<rparr>"

definition Lecture_init :: "string \<Rightarrow> int \<Rightarrow> lecture_resource list option \<Rightarrow> lecture" where
  "Lecture_init t w rs =
     \<lparr>lecture.title = t, week_covered = w, notes' = None, youtube_id = None, resources = rs\<rparr>"

definition LectureGroup_init ::
  "string \<Rightarrow> string \<Rightarrow> lecture list \<Rightarrow> int + string \<Rightarrow> lecture_resource list \<Rightarrow> lecture_group" where
  "LectureGroup_init t d ls ord gs =
     \<lparr>lecture_group.title = t, description = d, lectures = ls, order = ord, global_resources = gs\<rparr>"

section \<open>Properties\<close>

subsection \<open>Resources\<close>

text \<open>
  Claim C6. The \<^verbatim>\<open>url\<close> property of a resource is \<^verbatim>\<open>/_static/\<close> followed by the static URL
  whenever the static URL is set, whatever the external URL is; it is the external URL when only
  that one is set; it is \<^verbatim>\<open>None\<close> when both are \<^verbatim>\<open>None\<close>.
\<close>

theorem LectureResource_url_cases:
  "(static_url r = Some s \<longrightarrow> LectureResource_url r = Some (''/_static/'' @ s)) \<and>
   (static_url r = None \<and> external_url r = Some e \<longrightarrow> LectureResource_url r = Some e) \<and>
   (static_url r = None \<and> external_url r = None \<longrightarrow> LectureResource_url r = None)"
  by (simp add: LectureResource_url_def)

theorem LectureResource_url_cases_witness:
  "static_url (LectureResource_init ''Slides'' (Some ''s1.pdf'') (Some ''http://a.org'')) = Some ''s1.pdf'' \<and>
   LectureResource_url (LectureResource_init ''Slides'' (Some ''s1.pdf'') (Some ''http://a.org''))
     = Some ''/_static/s1.pdf'' \<and>
   LectureResource_url (LectureResource_init ''Site'' None (Some ''http://a.org'')) = Some ''http://a.org'' \<and>
   LectureResource_url (LectureResource_init ''Nothing'' None None) = None"
  using LectureResource_url_cases [of "LectureResource_init ''Slides'' (Some ''s1.pdf'') (Some ''http://a.org'')" "''s1.pdf''" "''''"]
    LectureResource_url_cases [of "LectureResource_init ''Site'' None (Some ''http://a.org'')" "''''" "''http://a.org''"]
    LectureResource_url_cases [of "LectureResource_init ''Nothing'' None None" "''''" "''''"]
  by (simp add: LectureResource_init_def)



text \<open>Equality of two resources, and of a resource and a value that lacks one of the attributes.\<close>

lemma LectureResource_eq_Res:
  "LectureResource_eq a (Res b) =
     (name a = name b \<and> static_url a = static_url b \<and> external_url a = external_url b)"
  by (auto simp: LectureResource_eq_def attr_of_optional_def split: option.splits)

lemma LectureResource_eq_missing:
  "getattr other a = None \<Longrightarrow> \<not> LectureResource_eq r other"
  by (cases a) (simp_all add: LectureResource_eq_def split: option.splits)

text \<open>
  Claim C9. Equality of resources compares the name, the static URL and the external URL only:
  two resources that agree on the three are equal, also when \<^verbatim>\<open>updated\<close>, \<^verbatim>\<open>index\<close> or
  \<^verbatim>\<open>datetime_fmt\<close> differ; the comparison with a value that lacks one of the three attributes
  is \<^verbatim>\<open>False\<close> (the result is a truth value in every case: nothing is raised).
\<close>

theorem LectureResource_eq_fields:
  "(LectureResource_eq a (Res b) \<longleftrightarrow>
      name a = name b \<and> static_url a = static_url b \<and> external_url a = external_url b) \<and>
   LectureResource_eq a (Res (a\<lparr>updated := u, index := i, datetime_fmt := f\<rparr>)) \<and>
   (getattr other Name = None \<or> getattr other StaticUrl = None \<or> getattr other ExternalUrl = None
      \<longrightarrow> \<not> LectureResource_eq a other)"
  using LectureResource_eq_missing [of other _ a]
  by (auto simp: LectureResource_eq_Res)

theorem LectureResource_eq_fields_witness:
  "LectureResource_eq (LectureResource_init ''Slides'' (Some ''s1.pdf'') None)
     (Res ((LectureResource_init ''Slides'' (Some ''s1.pdf'') None)
        \<lparr>updated := None, index := Some 4, datetime_fmt := ''%c''\<rparr>)) \<and>
   \<not> LectureResource_eq (LectureResource_init ''Slides'' (Some ''s1.pdf'') None)
     (Res (LectureResource_init ''Slides'' (Some ''s2.pdf'') None)) \<and>
   getattr (Obj \<lparr>obj_attrs = [(Name, AStr ''Slides'')], obj_to_rst = None, obj_to_pyexlatex = None\<rparr>) StaticUrl = None \<and>
   \<not> LectureResource_eq (LectureResource_init ''Slides'' (Some ''s1.pdf'') None)
     (Obj \<lparr>obj_attrs = [(Name, AStr ''Slides'')], obj_to_rst = None, obj_to_pyexlatex = None\<rparr>) \<and>
   \<not> LectureResource_eq (LectureResource_init ''Slides'' (Some ''s1.pdf'') None) (Str ''Slides'')"
  using LectureResource_eq_fields [where a = "LectureResource_init ''Slides'' (Some ''s1.pdf'') None"
      and b = "(LectureResource_init ''Slides'' (Some ''s1.pdf'') None)\<lparr>index := Some 4\<rparr>"
      and u = None and i = "Some 4" and f = "''%c''"
      and other = "Obj \<lparr>obj_attrs = [(Name, AStr ''Slides'')], obj_to_rst = None, obj_to_pyexlatex = None\<rparr>"]
    LectureResource_eq_fields [where a = "LectureResource_init ''Slides'' (Some ''s1.pdf'') None"
      and b = "LectureResource_init ''Slides'' (Some ''s2.pdf'') None"
      and u = None and i = None and f = "''%c''" and other = "Str ''Slides''"]
  by (simp add: LectureResource_init_def)

subsection \<open>Lecture groups\<close>

lemma count_list_filter_eq:
  "P x \<Longrightarrow> count_list (filter P xs) x = count_list xs x"
  by (induction xs) auto

text \<open>
  Claim C8. \<^verbatim>\<open>lectures_for_week\<close> returns exactly the lectures of the group whose week is the
  given one, in the order of the group: the result is a subsequence of the lectures, each of its
  elements has that week, and a lecture of that week occurs in it as often as in the group.
\<close>

theorem lectures_for_week_exact:
  "subseq (LectureGroup_lectures_for_week g w) (lectures g) \<and>
   (\<forall>l \<in> set (LectureGroup_lectures_for_week g w). week_covered l = w) \<and>
   (\<forall>l. week_covered l = w \<longrightarrow>
      count_list (LectureGroup_lectures_for_week g w) l = count_list (lectures g) l)"
proof (intro conjI)
  show "subseq (LectureGroup_lectures_for_week g w) (lectures g)"
    by (simp add: LectureGroup_lectures_for_week_def)
  show "\<forall>l \<in> set (LectureGroup_lectures_for_week g w). week_covered l = w"
    by (simp add: LectureGroup_lectures_for_week_def)
  show "\<forall>l. week_covered l = w \<longrightarrow>
      count_list (LectureGroup_lectures_for_week g w) l = count_list (lectures g) l"
    by (simp add: LectureGroup_lectures_for_week_def count_list_filter_eq)
qed

theorem lectures_for_week_exact_witness:
  "LectureGroup_lectures_for_week
     (LectureGroup_init ''G'' ''d''
        [Lecture_init ''a'' 1 None, Lecture_init ''b'' 2 None, Lecture_init ''c'' 1 None, Lecture_init ''a'' 1 None]
        (Inl 1) []) 1
     = [Lecture_init ''a'' 1 None, Lecture_init ''c'' 1 None, Lecture_init ''a'' 1 None] \<and>
   week_covered (Lecture_init ''c'' 1 None) = 1 \<and>
   count_list (LectureGroup_lectures_for_week
     (LectureGroup_init ''G'' ''d''
        [Lecture_init ''a'' 1 None, Lecture_init ''b'' 2 None, Lecture_init ''c'' 1 None, Lecture_init ''a'' 1 None]
        (Inl 1) []) 1) (Lecture_init ''a'' 1 None) = 2"
  using lectures_for_week_exact [of "LectureGroup_init ''G'' ''d''
        [Lecture_init ''a'' 1 None, Lecture_init ''b'' 2 None, Lecture_init ''c'' 1 None, Lecture_init ''a'' 1 None]
        (Inl 1) []" 1]
  by (simp add: LectureGroup_init_def Lecture_init_def LectureGroup_lectures_for_week_def)

text \<open>The two loops of \<^verbatim>\<open>resources\<close> only append to what is collected.\<close>

lemma resource_in_iff:
  "resource_in r rs \<longleftrightarrow> (\<exists>i < length rs. LectureResource_eq r (Res (rs ! i)))"
  by (simp add: resource_in_def list_ex_length)

lemma fresh_from_iff:
  "fresh_from n rs \<longleftrightarrow>
     (\<forall>j < length rs. n \<le> j \<longrightarrow> (\<forall>i < j. \<not> LectureResource_eq (rs ! j) (Res (rs ! i))))"
  by (auto simp: fresh_from_def list_all_iff)

lemma fresh_from_snoc:
  assumes "fresh_from n acc" and "\<not> resource_in r acc"
  shows "fresh_from n (acc @ [r])"
  unfolding fresh_from_iff
proof (intro allI impI)
  fix j i
  assume j: "j < length (acc @ [r])" and nj: "n \<le> j" and ij: "i < j"
  show "\<not> LectureResource_eq ((acc @ [r]) ! j) (Res ((acc @ [r]) ! i))"
  proof (cases "j < length acc")
    case True
    with assms(1) nj ij show ?thesis
      by (simp add: fresh_from_iff nth_append)
  next
    case False
    with j have "j = length acc" by simp
    with assms(2) ij show ?thesis
      by (simp add: resource_in_iff nth_append)
  qed
qed

lemma resources_of_lecture_prefix:
  "prefix acc (resources_of_lecture acc rs)"
proof (induction rs arbitrary: acc)
  case Nil
  show ?case by simp
next
  case (Cons r rs)
  have "prefix acc (if \<not> resource_in r acc then acc @ [r] else acc)" by simp
  also have "prefix \<dots> (resources_of_lecture (if \<not> resource_in r acc then acc @ [r] else acc) rs)"
    by (rule Cons.IH)
  finally show ?case by simp
qed

lemma resources_of_lectures_prefix:
  "prefix acc (resources_of_lectures acc ls)"
proof (induction ls arbitrary: acc)
  case Nil
  show ?case by simp
next
  case (Cons l ls)
  let ?acc' = "case resources l of None \<Rightarrow> acc
               | Some rs \<Rightarrow> if rs \<noteq> [] then resources_of_lecture acc rs else acc"
  have "prefix acc ?acc'"
    by (simp add: resources_of_lecture_prefix split: option.splits)
  also have "prefix ?acc' (resources_of_lectures ?acc' ls)"
    by (rule Cons.IH)
  finally show ?case by simp
qed

lemma resources_of_lecture_fresh:
  "fresh_from n acc \<Longrightarrow> fresh_from n (resources_of_lecture acc rs)"
  by (induction rs arbitrary: acc) (simp_all add: fresh_from_snoc)

lemma resources_of_lectures_fresh:
  "fresh_from n acc \<Longrightarrow> fresh_from n (resources_of_lectures acc ls)"
  by (induction ls arbitrary: acc) (simp_all add: resources_of_lecture_fresh split: option.splits)

lemma fresh_from_length:
  "fresh_from (length rs) rs"
  by (simp add: fresh_from_def)

lemma resources_of_lecture_subseq:
  "subseq (drop n acc) xs \<Longrightarrow> n \<le> length acc \<Longrightarrow>
   subseq (drop n (resources_of_lecture acc rs)) (xs @ rs)"
proof (induction rs arbitrary: acc xs)
  case Nil
  then show ?case by simp
next
  case (Cons r rs)
  let ?acc' = "if \<not> resource_in r acc then acc @ [r] else acc"
  have "subseq (drop n ?acc') (xs @ [r])"
    using Cons.prems by (auto simp: subseq_append')
  moreover have "n \<le> length ?acc'"
    using Cons.prems by simp
  ultimately have "subseq (drop n (resources_of_lecture ?acc' rs)) ((xs @ [r]) @ rs)"
    by (rule Cons.IH)
  then show ?case by simp
qed

lemma resources_of_lecture_length:
  "length acc \<le> length (resources_of_lecture acc rs)"
  using resources_of_lecture_prefix [of acc rs] by (rule prefix_length_le)

lemma resources_of_lectures_subseq:
  "subseq (drop n acc) xs \<Longrightarrow> n \<le> length acc \<Longrightarrow>
   subseq (drop n (resources_of_lectures acc ls)) (xs @ scanned_resources ls)"
proof (induction ls arbitrary: acc xs)
  case Nil
  then show ?case by (simp add: scanned_resources_def)
next
  case (Cons l ls)
  let ?rs = "case resources l of None \<Rightarrow> [] | Some rs \<Rightarrow> rs"
  let ?acc' = "case resources l of None \<Rightarrow> acc
               | Some rs \<Rightarrow> if rs \<noteq> [] then resources_of_lecture acc rs else acc"
  have "subseq (drop n ?acc') (xs @ ?rs)"
    using Cons.prems by (auto simp: resources_of_lecture_subseq split: option.splits)
  moreover have "n \<le> length ?acc'"
    using Cons.prems resources_of_lecture_length [of acc]
    by (auto split: option.splits intro: order_trans)
  ultimately have "subseq (drop n (resources_of_lectures ?acc' ls)) ((xs @ ?rs) @ scanned_resources ls)"
    by (rule Cons.IH)
  then show ?case by (simp add: scanned_resources_def)
qed

lemma resource_in_mono:
  "resource_in r acc \<Longrightarrow> prefix acc acc' \<Longrightarrow> resource_in r acc'"
  by (auto simp: resource_in_def list_ex_iff prefix_def)

lemma resource_in_self:
  "resource_in r (acc @ [r])"
  by (simp add: resource_in_def LectureResource_eq_Res)

lemma resources_of_lecture_covers:
  "r \<in> set rs \<Longrightarrow> resource_in r (resources_of_lecture acc rs)"
proof (induction rs arbitrary: acc)
  case Nil
  then show ?case by simp
next
  case (Cons x rs)
  let ?acc' = "if \<not> resource_in x acc then acc @ [x] else acc"
  show ?case
  proof (cases "r = x")
    case True
    have "resource_in x ?acc'" by (simp add: resource_in_self)
    then have "resource_in x (resources_of_lecture ?acc' rs)"
      by (rule resource_in_mono) (rule resources_of_lecture_prefix)
    with True show ?thesis by simp
  next
    case False
    with Cons.prems have "r \<in> set rs" by simp
    then show ?thesis by (simp add: Cons.IH)
  qed
qed

lemma resources_of_lectures_covers:
  "r \<in> set (scanned_resources ls) \<Longrightarrow> resource_in r (resources_of_lectures acc ls)"
proof (induction ls arbitrary: acc)
  case Nil
  then show ?case by (simp add: scanned_resources_def)
next
  case (Cons l ls)
  let ?rs = "case resources l of None \<Rightarrow> [] | Some rs \<Rightarrow> rs"
  let ?acc' = "case resources l of None \<Rightarrow> acc
               | Some rs \<Rightarrow> if rs \<noteq> [] then resources_of_lecture acc rs else acc"
  from Cons.prems have "r \<in> set ?rs \<or> r \<in> set (scanned_resources ls)"
    by (simp add: scanned_resources_def)
  then show ?case
  proof
    assume "r \<in> set ?rs"
    then have "resource_in r ?acc'"
      by (auto simp: resources_of_lecture_covers split: option.splits)
    then have "resource_in r (resources_of_lectures ?acc' ls)"
      by (rule resource_in_mono) (rule resources_of_lectures_prefix)
    then show ?thesis by simp
  next
    assume "r \<in> set (scanned_resources ls)"
    then show ?thesis by (simp add: Cons.IH)
  qed
qed

text \<open>
  Claim C1. In the list that \<^verbatim>\<open>resources\<close> returns, no resource that comes from a lecture
  equals a resource before it (a resource is appended only if it equals none of those collected
  so far); the lectures are scanned in order and the resources of a lecture in order, so what
  follows the global resources is a subsequence of the scanned resources; and each scanned
  resource equals some resource of the result.
\<close>

theorem LectureGroup_resources_dedup:
  "(\<forall>j < length (LectureGroup_resources g). length (global_resources g) \<le> j \<longrightarrow>
      (\<forall>i < j. \<not> LectureResource_eq (LectureGroup_resources g ! j) (Res (LectureGroup_resources g ! i)))) \<and>
   subseq (drop (length (global_resources g)) (LectureGroup_resources g)) (scanned_resources (lectures g)) \<and>
   (\<forall>r \<in> set (scanned_resources (lectures g)). resource_in r (LectureGroup_resources g))"
proof (intro conjI ballI)
  have "fresh_from (length (global_resources g)) (LectureGroup_resources g)"
    unfolding LectureGroup_resources_def
    by (rule resources_of_lectures_fresh) (rule fresh_from_length)
  then show "\<forall>j < length (LectureGroup_resources g). length (global_resources g) \<le> j \<longrightarrow>
      (\<forall>i < j. \<not> LectureResource_eq (LectureGroup_resources g ! j) (Res (LectureGroup_resources g ! i)))"
    by (simp only: fresh_from_iff)
  show "subseq (drop (length (global_resources g)) (LectureGroup_resources g)) (scanned_resources (lectures g))"
    unfolding LectureGroup_resources_def
    using resources_of_lectures_subseq [of "length (global_resources g)" "global_resources g" "[]" "lectures g"]
    by simp
  fix r assume "r \<in> set (scanned_resources (lectures g))"
  then show "resource_in r (LectureGroup_resources g)"
    unfolding LectureGroup_resources_def by (rule resources_of_lectures_covers)
qed

theorem LectureGroup_resources_dedup_witness:
  "LectureGroup_resources
     (LectureGroup_init ''G'' ''d''
        [Lecture_init ''a'' 1 (Some [LectureResource_init ''A'' (Some ''a.pdf'') None,
                                      LectureResource_init ''B'' (Some ''b.pdf'') None]),
         Lecture_init ''b'' 2 None,
         Lecture_init ''c'' 2 (Some [(LectureResource_init ''B'' (Some ''b.pdf'') None)\<lparr>index := Some 2\<rparr>,
                                      LectureResource_init ''C'' None (Some ''http://c.org'')])]
        (Inl 1)
        [LectureResource_init ''A'' (Some ''a.pdf'') None])
   = [LectureResource_init ''A'' (Some ''a.pdf'') None,
      LectureResource_init ''B'' (Some ''b.pdf'') None,
      LectureResource_init ''C'' None (Some ''http://c.org'')] \<and>
   \<not> LectureResource_eq (LectureResource_init ''C'' None (Some ''http://c.org''))
       (Res (LectureResource_init ''B'' (Some ''b.pdf'') None)) \<and>
   scanned_resources
        [Lecture_init ''a'' 1 (Some [LectureResource_init ''A'' (Some ''a.pdf'') None,
                                      LectureResource_init ''B'' (Some ''b.pdf'') None]),
         Lecture_init ''b'' 2 None,
         Lecture_init ''c'' 2 (Some [(LectureResource_init ''B'' (Some ''b.pdf'') None)\<lparr>index := Some 2\<rparr>,
                                      LectureResource_init ''C'' None (Some ''http://c.org'')])]
   = [LectureResource_init ''A'' (Some ''a.pdf'') None,
      LectureResource_init ''B'' (Some ''b.pdf'') None,
      (LectureResource_init ''B'' (Some ''b.pdf'') None)\<lparr>index := Some 2\<rparr>,
      LectureResource_init ''C'' None (Some ''http://c.org'')] \<and>
   resource_in ((LectureResource_init ''B'' (Some ''b.pdf'') None)\<lparr>index := Some 2\<rparr>)
     [LectureResource_init ''A'' (Some ''a.pdf'') None,
      LectureResource_init ''B'' (Some ''b.pdf'') None,
      LectureResource_init ''C'' None (Some ''http://c.org'')]"
proof -
  let ?g = "LectureGroup_init ''G'' ''d''
        [Lecture_init ''a'' 1 (Some [LectureResource_init ''A'' (Some ''a.pdf'') None,
                                      LectureResource_init ''B'' (Some ''b.pdf'') None]),
         Lecture_init ''b'' 2 None,
         Lecture_init ''c'' 2 (Some [(LectureResource_init ''B'' (Some ''b.pdf'') None)\<lparr>index := Some 2\<rparr>,
                                      LectureResource_init ''C'' None (Some ''http://c.org'')])]
        (Inl 1)
        [LectureResource_init ''A'' (Some ''a.pdf'') None]"
  have res: "LectureGroup_resources ?g
     = [LectureResource_init ''A'' (Some ''a.pdf'') None,
        LectureResource_init ''B'' (Some ''b.pdf'') None,
        LectureResource_init ''C'' None (Some ''http://c.org'')]"
    by (simp add: LectureGroup_init_def Lecture_init_def LectureResource_init_def
        LectureGroup_resources_def resource_in_def LectureResource_eq_def attr_of_optional_def)
  have scanned: "scanned_resources (lectures ?g)
     = [LectureResource_init ''A'' (Some ''a.pdf'') None,
        LectureResource_init ''B'' (Some ''b.pdf'') None,
        (LectureResource_init ''B'' (Some ''b.pdf'') None)\<lparr>index := Some 2\<rparr>,
        LectureResource_init ''C'' None (Some ''http://c.org'')]"
    by (simp add: LectureGroup_init_def Lecture_init_def scanned_resources_def)
  note inst = LectureGroup_resources_dedup [of ?g, unfolded res scanned]
  from inst [THEN conjunct1, rule_format, of 2 1]
  have "\<not> LectureResource_eq (LectureResource_init ''C'' None (Some ''http://c.org''))
       (Res (LectureResource_init ''B'' (Some ''b.pdf'') None))"
    by (simp add: LectureGroup_init_def)
  moreover from inst have "resource_in ((LectureResource_init ''B'' (Some ''b.pdf'') None)\<lparr>index := Some 2\<rparr>)
     [LectureResource_init ''A'' (Some ''a.pdf'') None,
      LectureResource_init ''B'' (Some ''b.pdf'') None,
      LectureResource_init ''C'' None (Some ''http://c.org'')]"
    by simp
  ultimately show ?thesis using res scanned by (simp add: LectureGroup_init_def)
qed

text \<open>
  Claim C10. The list that \<^verbatim>\<open>resources\<close> returns starts with the global resources of the group
  as they are, in their order and with their duplicates; only what comes from the lectures is
  deduplicated.
\<close>

theorem LectureGroup_resources_global_prefix:
  "\<exists>rest. LectureGroup_resources g = global_resources g @ rest"
  using resources_of_lectures_prefix [of "global_resources g" "lectures g"]
  by (simp add: LectureGroup_resources_def prefix_def)

theorem LectureGroup_resources_global_prefix_witness:
  "LectureGroup_resources
     (LectureGroup_init ''G'' ''d''
        [Lecture_init ''a'' 1 (Some [LectureResource_init ''A'' (Some ''a.pdf'') None,
                                      LectureResource_init ''B'' (Some ''b.pdf'') None])]
        (Inl 1)
        [LectureResource_init ''A'' (Some ''a.pdf'') None, LectureResource_init ''A'' (Some ''a.pdf'') None])
   = [LectureResource_init ''A'' (Some ''a.pdf'') None, LectureResource_init ''A'' (Some ''a.pdf'') None]
       @ [LectureResource_init ''B'' (Some ''b.pdf'') None]"
  using LectureGroup_resources_global_prefix [of "LectureGroup_init ''G'' ''d''
        [Lecture_init ''a'' 1 (Some [LectureResource_init ''A'' (Some ''a.pdf'') None,
                                      LectureResource_init ''B'' (Some ''b.pdf'') None])]
        (Inl 1)
        [LectureResource_init ''A'' (Some ''a.pdf'') None, LectureResource_init ''A'' (Some ''a.pdf'') None]"]
  by (simp add: LectureGroup_init_def Lecture_init_def LectureResource_init_def
      LectureGroup_resources_def resource_in_def LectureResource_eq_def attr_of_optional_def)

subsection \<open>Notes as a document tree\<close>

lemma serialized_str:
  "isinstance_str_doc x \<Longrightarrow> serialized x = x"
  by (simp add: serialized_def)

lemma collect_strs_maximal_runs:
  "collect_strs sub_model xs final_items current =
     final_items @
       (if current = [] then maximal_runs sub_model xs
        else Model sub_model (current @ map serialized (takeWhile string_item xs)) None
               # maximal_runs sub_model (dropWhile string_item xs))"
proof (induction xs arbitrary: final_items current)
  case Nil
  show ?case by simp
next
  case (Cons x xs)
  show ?case
  proof (cases "isinstance_str_doc x")
    case True
    then show ?thesis
      by (simp add: Cons.IH string_item_def serialized_def)
  next
    case False
    show ?thesis
    proof (cases "doc_to_pyexlatex x")
      case None
      with False show ?thesis
        by (simp add: Cons.IH string_item_def)
    next
      case (Some p)
      with False show ?thesis
        by (simp add: Cons.IH string_item_def serialized_def)
    qed
  qed
qed

text \<open>
  Claim C2. \<^verbatim>\<open>to_models\<close> folds a notes tree into a document tree: an item that is a notes
  object is converted recursively with the sub model as its top model, every maximal run of
  consecutive string items (an item that exposes \<^verbatim>\<open>to_pyexlatex\<close> enters the run serialized)
  becomes one instance of the sub model, and the list of the results is wrapped as
  \<^verbatim>\<open>top_model(final_items, title=self.title)\<close> unless the top model is \<^verbatim>\<open>None\<close>. The loops of
  the code compute what the specification describes.
\<close>

theorem LectureNotes_to_models_refines_spec:
  "LectureNotes_to_models n top_model sub_model = to_models_spec n top_model sub_model"
proof (induction n top_model sub_model rule: LectureNotes_to_models.induct)
  case (1 its t top_model sub_model)
  have converted: "map (\<lambda>item. case item of
                Notes m \<Rightarrow> LectureNotes_to_models m (Some sub_model) sub_model
              | _ \<Rightarrow> Item item) its
        = map (\<lambda>item. case item of
                Notes m \<Rightarrow> to_models_spec m (Some sub_model) sub_model
              | _ \<Rightarrow> Item item) its"
    by (rule map_cong [OF refl]) (auto split: pyval.splits simp: "1.IH")
  show ?case
    unfolding LectureNotes_to_models.simps to_models_spec.simps converted collect_strs_maximal_runs
    by simp
qed

theorem LectureNotes_to_models_refines_spec_witness:
  "LectureNotes_to_models
     (LectureNotes [Str ''a'', Eqn ''x'', Notes (LectureNotes [Str ''b''] ''inner''), Seq [], Str ''c'', Str ''d''] ''T'')
     (Some Section) UnorderedList
   = Model Section
       [Model UnorderedList [Item (Str ''a''), Pyex (PlEquation ''x'')] None,
        Model UnorderedList [Model UnorderedList [Item (Str ''b'')] None] (Some ''inner''),
        Item (Seq []),
        Model UnorderedList [Item (Str ''c''), Item (Str ''d'')] None]
       (Some ''T'') \<and>
   to_models_spec
     (LectureNotes [Str ''a'', Eqn ''x'', Notes (LectureNotes [Str ''b''] ''inner''), Seq [], Str ''c'', Str ''d''] ''T'')
     None UnorderedList
   = ListOf
       [Model UnorderedList [Item (Str ''a''), Pyex (PlEquation ''x'')] None,
        Model UnorderedList [Model UnorderedList [Item (Str ''b'')] None] (Some ''inner''),
        Item (Seq []),
        Model UnorderedList [Item (Str ''c''), Item (Str ''d'')] None]"
  using LectureNotes_to_models_refines_spec [of "LectureNotes [Str ''a'', Eqn ''x'', Notes (LectureNotes [Str ''b''] ''inner''), Seq [], Str ''c'', Str ''d''] ''T''" None UnorderedList]
  by simp

subsection \<open>Notes as bulleted text\<close>


lemma results_Inl_iff:
  "results rs = Inl e \<longleftrightarrow>
     (\<exists>k < length rs. rs ! k = Inl e \<and> (\<forall>j < k. \<exists>v. rs ! j = Inr v))"
proof (induction rs)
  case Nil
  show ?case by simp
next
  case (Cons r rs)
  show ?case
  proof (cases r)
    case (Inl e')
    have "(\<exists>k < length (r # rs). (r # rs) ! k = Inl e \<and> (\<forall>j < k. \<exists>v. (r # rs) ! j = Inr v))
            \<longleftrightarrow> e' = e"
    proof
      assume "\<exists>k < length (r # rs). (r # rs) ! k = Inl e \<and> (\<forall>j < k. \<exists>v. (r # rs) ! j = Inr v)"
      then obtain k where k: "(r # rs) ! k = Inl e" "\<forall>j < k. \<exists>v. (r # rs) ! j = Inr v"
        by blast
      show "e' = e"
      proof (cases k)
        case 0
        with k(1) Inl show ?thesis by simp
      next
        case (Suc k')
        with k(2) have "\<exists>v. (r # rs) ! 0 = Inr v" by blast
        with Inl show ?thesis by simp
      qed
    next
      assume "e' = e"
      with Inl have "(r # rs) ! 0 = Inl e \<and> (\<forall>j < 0. \<exists>v. (r # rs) ! j = Inr v)" by simp
      then show "\<exists>k < length (r # rs). (r # rs) ! k = Inl e \<and> (\<forall>j < k. \<exists>v. (r # rs) ! j = Inr v)"
        by (intro exI [of _ 0]) simp
    qed
    with Inl show ?thesis by simp
  next
    case (Inr v)
    have "(\<exists>k < length (r # rs). (r # rs) ! k = Inl e \<and> (\<forall>j < k. \<exists>v. (r # rs) ! j = Inr v))
            \<longleftrightarrow> (\<exists>k < length rs. rs ! k = Inl e \<and> (\<forall>j < k. \<exists>v. rs ! j = Inr v))"
    proof
      assume "\<exists>k < length (r # rs). (r # rs) ! k = Inl e \<and> (\<forall>j < k. \<exists>v. (r # rs) ! j = Inr v)"
      then obtain k where k: "k < length (r # rs)" "(r # rs) ! k = Inl e"
        "\<forall>j < k. \<exists>v. (r # rs) ! j = Inr v"
        by blast
      from k(2) Inr obtain k' where k': "k = Suc k'" by (cases k) auto
      have "\<forall>j < k'. \<exists>v. rs ! j = Inr v"
      proof (intro allI impI)
        fix j assume "j < k'"
        with k(3) k' have "\<exists>v. (r # rs) ! Suc j = Inr v" by blast
        then show "\<exists>v. rs ! j = Inr v" by simp
      qed
      with k k' show "\<exists>k < length rs. rs ! k = Inl e \<and> (\<forall>j < k. \<exists>v. rs ! j = Inr v)"
        by (intro exI [of _ k']) simp
    next
      assume "\<exists>k < length rs. rs ! k = Inl e \<and> (\<forall>j < k. \<exists>v. rs ! j = Inr v)"
      then obtain k where k: "k < length rs" "rs ! k = Inl e" "\<forall>j < k. \<exists>v. rs ! j = Inr v"
        by blast
      have "\<forall>j < Suc k. \<exists>v. (r # rs) ! j = Inr v"
      proof (intro allI impI)
        fix j assume j: "j < Suc k"
        show "\<exists>v. (r # rs) ! j = Inr v"
        proof (cases j)
          case 0
          with Inr show ?thesis by simp
        next
          case (Suc j')
          with j k(3) show ?thesis by simp
        qed
      qed
      with k show "\<exists>k < length (r # rs). (r # rs) ! k = Inl e \<and> (\<forall>j < k. \<exists>v. (r # rs) ! j = Inr v)"
        by (intro exI [of _ "Suc k"]) simp
    qed
    moreover have "results (r # rs) = Inl e \<longleftrightarrow> results rs = Inl e"
      using Inr by (cases "results rs") auto
    ultimately show ?thesis using Cons.IH by simp
  qed
qed

lemma results_raises_iff:
  "(\<exists>e. results rs = Inl e) \<longleftrightarrow> (\<exists>e. Inl e \<in> set rs)"
proof (induction rs)
  case Nil
  show ?case by simp
next
  case (Cons r rs)
  show ?case
  proof (cases r)
    case (Inl e)
    then show ?thesis by auto
  next
    case (Inr v)
    have "(\<exists>e. results (r # rs) = Inl e) \<longleftrightarrow> (\<exists>e. results rs = Inl e)"
      using Inr by (cases "results rs") auto
    with Cons.IH Inr show ?thesis by auto
  qed
qed

lemma propagate_Inl_iff:
  "(case r of Inl e \<Rightarrow> Inl e | Inr v \<Rightarrow> Inr (f v)) = Inl e' \<longleftrightarrow> r = Inl e'"
  by (cases r) auto

lemma propagate_raises_iff:
  "(\<exists>e'. (case r of Inl e \<Rightarrow> Inl e | Inr v \<Rightarrow> Inr (f v)) = Inl e') \<longleftrightarrow> (\<exists>e'. r = Inl e')"
  by (cases r) auto

lemma raises_in_map_iff:
  "(\<exists>e. Inl e \<in> set (map f xs)) \<longleftrightarrow> (\<exists>x \<in> set xs. \<exists>e. f x = Inl e)"
proof
  assume "\<exists>e. Inl e \<in> set (map f xs)"
  then obtain e x where "x \<in> set xs" "Inl e = f x" by auto
  then have "f x = Inl e" by simp
  with \<open>x \<in> set xs\<close> show "\<exists>x \<in> set xs. \<exists>e. f x = Inl e" by blast
next
  assume "\<exists>x \<in> set xs. \<exists>e. f x = Inl e"
  then obtain x e where x: "x \<in> set xs" "f x = Inl e" by blast
  then have "Inl e \<in> set (map f xs)" by force
  then show "\<exists>e. Inl e \<in> set (map f xs)" ..
qed



text \<open>The text lines of a rendering whose entries hold no line break.\<close>

lemma split_lines_no_newline:
  "newline \<notin> set xs \<Longrightarrow> split_lines xs = [xs]"
  by (induction xs) auto







text \<open>An item fails to render exactly when it is not renderable.\<close>

lemma not_renderable_iff:
  "((\<exists>e. to_rst_bullet_content item = Inl e) \<longleftrightarrow> \<not> renderable item)"
  "((\<exists>e. LectureNotes_to_rst n = Inl e) \<longleftrightarrow> \<not> renderable (Notes n))"
proof (induction item and n rule: to_rst_bullet_content_LectureNotes_to_rst.induct)
  case (2 sub_items)
  have "(\<exists>e. Inl e \<in> set (map to_rst_bullet_content sub_items))
          \<longleftrightarrow> (\<exists>x \<in> set sub_items. \<exists>e. to_rst_bullet_content x = Inl e)"
    by (rule raises_in_map_iff)
  also have "\<dots> \<longleftrightarrow> (\<exists>x \<in> set sub_items. \<not> renderable x)"
    using "2.IH" by blast
  finally have "(\<exists>e. Inl e \<in> set (map to_rst_bullet_content sub_items))
          \<longleftrightarrow> (\<exists>x \<in> set sub_items. \<not> renderable x)" .
  then show ?case
    by (simp add: propagate_raises_iff results_raises_iff list_all_iff)
next
  case (3 n)
  then show ?case by (simp add: propagate_raises_iff)
next
  case (6 r)
  show ?case
    by (simp add: propagate_raises_iff LectureResource_to_rst_def)
next
  case (7 ob)
  show ?case
    by (auto split: option.splits sum.splits)
next
  case (8 its t)
  have "(\<exists>e. Inl e \<in> set (map to_rst_bullet_content its))
          \<longleftrightarrow> (\<exists>x \<in> set its. \<exists>e. to_rst_bullet_content x = Inl e)"
    by (rule raises_in_map_iff)
  also have "\<dots> \<longleftrightarrow> (\<exists>x \<in> set its. \<not> renderable x)"
    using "8.IH" by blast
  finally have "(\<exists>e. Inl e \<in> set (map to_rst_bullet_content its))
          \<longleftrightarrow> (\<exists>x \<in> set its. \<not> renderable x)" .
  then show ?case
    by (simp add: propagate_raises_iff results_raises_iff list_all_iff)
qed simp_all

text \<open>The branches of the dispatch.\<close>

lemma dispatch_to_rst_method:
  "to_rst_method item = Some outcome \<Longrightarrow>
   to_rst_bullet_content item = (case outcome of Inl e \<Rightarrow> Inl e | Inr s \<Rightarrow> Inr [s])"
  by (cases item) (auto split: option.splits)

lemma hasattr_to_rst_method:
  "hasattr_to_rst item \<longleftrightarrow> to_rst_method item \<noteq> None"
  by (cases item) auto

lemma dispatch_list:
  "to_rst_bullet_content (Seq sub_items) = Inl e \<longleftrightarrow>
     (\<exists>k < length sub_items. to_rst_bullet_content (sub_items ! k) = Inl e \<and>
        (\<forall>j < k. \<exists>r. to_rst_bullet_content (sub_items ! j) = Inr r))"
proof -
  have "to_rst_bullet_content (Seq sub_items) = Inl e
          \<longleftrightarrow> results (map to_rst_bullet_content sub_items) = Inl e"
    by (simp add: propagate_Inl_iff)
  also have "\<dots> \<longleftrightarrow> (\<exists>k < length (map to_rst_bullet_content sub_items).
        map to_rst_bullet_content sub_items ! k = Inl e \<and>
        (\<forall>j < k. \<exists>v. map to_rst_bullet_content sub_items ! j = Inr v))"
    by (rule results_Inl_iff)
  also have "\<dots> \<longleftrightarrow> (\<exists>k < length sub_items. to_rst_bullet_content (sub_items ! k) = Inl e \<and>
        (\<forall>j < k. \<exists>r. to_rst_bullet_content (sub_items ! j) = Inr r))"
    by (intro ex_cong1 conj_cong refl all_cong1 imp_cong) auto
  finally show ?thesis .
qed

lemma dispatch_raises_cases:
  "to_rst_bullet_content item = Inl e \<longleftrightarrow>
     (\<not> isinstance_str item \<and> \<not> isinstance_list_tuple item \<and> \<not> hasattr_to_rst item \<and> e = ValueError)
   \<or> (\<exists>sub_items k. item = Seq sub_items \<and> k < length sub_items \<and>
         to_rst_bullet_content (sub_items ! k) = Inl e \<and>
         (\<forall>j < k. \<exists>r. to_rst_bullet_content (sub_items ! j) = Inr r))
   \<or> to_rst_method item = Some (Inl e)"
proof (cases item)
  case (Seq sub_items)
  then show ?thesis using dispatch_list [of sub_items e] by auto
next
  case (Obj ob)
  then show ?thesis by (auto split: option.splits sum.splits)
qed (auto simp: propagate_Inl_iff)

text \<open>
  Claim C4, as stated, fails on a list: \<^verbatim>\<open>to_rst_bullet_content([5])\<close> raises \<^verbatim>\<open>ValueError\<close>
  although the item is a list, because the call on the sub-item raises.
\<close>

theorem to_rst_bullet_content_list_counterexample:
  "\<not> (to_rst_bullet_content (Seq [Obj \<lparr>obj_attrs = [], obj_to_rst = None, obj_to_pyexlatex = None\<rparr>])
        = Inl ValueError \<longleftrightarrow>
      \<not> isinstance_str (Seq [Obj \<lparr>obj_attrs = [], obj_to_rst = None, obj_to_pyexlatex = None\<rparr>]) \<and>
      \<not> isinstance_list_tuple (Seq [Obj \<lparr>obj_attrs = [], obj_to_rst = None, obj_to_pyexlatex = None\<rparr>]) \<and>
      \<not> hasattr_to_rst (Seq [Obj \<lparr>obj_attrs = [], obj_to_rst = None, obj_to_pyexlatex = None\<rparr>]))"
  by simp

text \<open>
  Claim C4, amended. \<^verbatim>\<open>to_rst_bullet_content\<close> raises \<^verbatim>\<open>ValueError\<close> exactly in three cases:
  the item is not a string, not a list or tuple and does not expose \<^verbatim>\<open>to_rst\<close>; or the item
  is a list or tuple and the first call on a sub-item that raises, raises \<^verbatim>\<open>ValueError\<close>; or
  the item exposes \<^verbatim>\<open>to_rst\<close> and the call \<^verbatim>\<open>item.to_rst()\<close> raises \<^verbatim>\<open>ValueError\<close> (a
  resource without a link, a lecture with such a resource, notes with an item that fails). An
  item that exposes \<^verbatim>\<open>to_rst\<close> is rendered by that method: the outcome of the call, a string
  or an exception, is the outcome of the function, which adds no exception of its own.
\<close>

theorem to_rst_bullet_content_raises_iff:
  "(to_rst_bullet_content item = Inl ValueError \<longleftrightarrow>
      (\<not> isinstance_str item \<and> \<not> isinstance_list_tuple item \<and> \<not> hasattr_to_rst item)
    \<or> (\<exists>sub_items k. item = Seq sub_items \<and> k < length sub_items \<and>
          to_rst_bullet_content (sub_items ! k) = Inl ValueError \<and>
          (\<forall>j < k. \<exists>r. to_rst_bullet_content (sub_items ! j) = Inr r))
    \<or> to_rst_method item = Some (Inl ValueError)) \<and>
   (hasattr_to_rst item \<longleftrightarrow> to_rst_method item \<noteq> None) \<and>
   (\<forall>outcome. to_rst_method item = Some outcome \<longrightarrow>
      to_rst_bullet_content item = (case outcome of Inl e \<Rightarrow> Inl e | Inr s \<Rightarrow> Inr [s]))"
proof (intro conjI allI impI)
  show "to_rst_bullet_content item = Inl ValueError \<longleftrightarrow>
      (\<not> isinstance_str item \<and> \<not> isinstance_list_tuple item \<and> \<not> hasattr_to_rst item)
    \<or> (\<exists>sub_items k. item = Seq sub_items \<and> k < length sub_items \<and>
          to_rst_bullet_content (sub_items ! k) = Inl ValueError \<and>
          (\<forall>j < k. \<exists>r. to_rst_bullet_content (sub_items ! j) = Inr r))
    \<or> to_rst_method item = Some (Inl ValueError)"
    using dispatch_raises_cases [of item ValueError] by simp
  show "hasattr_to_rst item \<longleftrightarrow> to_rst_method item \<noteq> None"
    by (rule hasattr_to_rst_method)
next
  fix outcome assume "to_rst_method item = Some outcome"
  then show "to_rst_bullet_content item = (case outcome of Inl e \<Rightarrow> Inl e | Inr s \<Rightarrow> Inr [s])"
    by (rule dispatch_to_rst_method)
qed

theorem to_rst_bullet_content_raises_iff_witness:
  "to_rst_bullet_content (Seq [Str ''a'', Obj \<lparr>obj_attrs = [], obj_to_rst = None, obj_to_pyexlatex = None\<rparr>])
     = Inl ValueError \<and>
   \<not> isinstance_str (Obj \<lparr>obj_attrs = [], obj_to_rst = None, obj_to_pyexlatex = None\<rparr>) \<and>
   \<not> isinstance_list_tuple (Obj \<lparr>obj_attrs = [], obj_to_rst = None, obj_to_pyexlatex = None\<rparr>) \<and>
   \<not> hasattr_to_rst (Obj \<lparr>obj_attrs = [], obj_to_rst = None, obj_to_pyexlatex = None\<rparr>) \<and>
   to_rst_bullet_content (Obj \<lparr>obj_attrs = [], obj_to_rst = None, obj_to_pyexlatex = None\<rparr>)
     = Inl ValueError \<and>
   to_rst_bullet_content
     (Seq [Str ''a'', Obj \<lparr>obj_attrs = [], obj_to_rst = Some (Inr ''x''), obj_to_pyexlatex = None\<rparr>])
     = Inr [''a x''] \<and>
   hasattr_to_rst (Res (LectureResource_init ''N'' None None)) \<and>
   to_rst_method (Res (LectureResource_init ''N'' None None)) = Some (Inl ValueError) \<and>
   to_rst_bullet_content (Res (LectureResource_init ''N'' None None)) = Inl ValueError \<and>
   hasattr_to_rst
     (Lecture_item (\<lambda>t level. t @ [newline])
        (Lecture_init ''t'' 1 (Some [LectureResource_init ''N'' None None]))) \<and>
   to_rst_method
     (Lecture_item (\<lambda>t level. t @ [newline])
        (Lecture_init ''t'' 1 (Some [LectureResource_init ''N'' None None])))
     = Some (Inl ValueError) \<and>
   to_rst_bullet_content
     (Lecture_item (\<lambda>t level. t @ [newline])
        (Lecture_init ''t'' 1 (Some [LectureResource_init ''N'' None None])))
     = Inl ValueError \<and>
   to_rst_method (Eqn ''x'') = Some (Inr ('':math:'' @ [backtick] @ ''x'' @ [backtick])) \<and>
   to_rst_bullet_content (Eqn ''x'') = Inr ['':math:'' @ [backtick] @ ''x'' @ [backtick]]"
proof -
  let ?none = "Obj \<lparr>obj_attrs = [], obj_to_rst = None, obj_to_pyexlatex = None\<rparr>"
  let ?lec = "Lecture_item (\<lambda>t level. t @ [newline])
        (Lecture_init ''t'' 1 (Some [LectureResource_init ''N'' None None]))"
  have lec: "to_rst_method ?lec = Some (Inl ValueError)"
    by (simp add: Lecture_item_def Lecture_to_rst_def Lecture_notes_rst_def
        Lecture_resources_rst_def resources_block_def Lecture_init_def
        LectureResource_init_def LectureResource_to_rst_def)
  have res: "to_rst_method (Res (LectureResource_init ''N'' None None)) = Some (Inl ValueError)"
    by (simp add: LectureResource_init_def LectureResource_to_rst_def)
  have eqn: "to_rst_method (Eqn ''x'') = Some (Inr ('':math:'' @ [backtick] @ ''x'' @ [backtick]))"
    by (simp add: Equation_to_rst_def)
  have sub: "to_rst_bullet_content ([Str ''a'', ?none] ! 1) = Inl ValueError \<and>
      (\<forall>j < 1. \<exists>r. to_rst_bullet_content ([Str ''a'', ?none] ! j) = Inr r)"
    by simp
  have "to_rst_bullet_content (Seq [Str ''a'', ?none]) = Inl ValueError"
    using sub
    by (intro iffD2 [OF to_rst_bullet_content_raises_iff [of "Seq [Str ''a'', ?none]", THEN conjunct1]]
        disjI2 disjI1 exI [of _ "[Str ''a'', ?none]"] exI [of _ 1]) simp
  moreover have "\<not> isinstance_str ?none \<and> \<not> isinstance_list_tuple ?none \<and> \<not> hasattr_to_rst ?none"
    by simp
  moreover from this have "to_rst_bullet_content ?none = Inl ValueError"
    using to_rst_bullet_content_raises_iff [of ?none] by blast
  moreover have "to_rst_bullet_content
     (Seq [Str ''a'', Obj \<lparr>obj_attrs = [], obj_to_rst = Some (Inr ''x''), obj_to_pyexlatex = None\<rparr>])
     = Inr [''a x'']"
    by simp
  moreover have "hasattr_to_rst (Res (LectureResource_init ''N'' None None))"
    using to_rst_bullet_content_raises_iff [of "Res (LectureResource_init ''N'' None None)"] res
    by simp
  moreover have "to_rst_bullet_content (Res (LectureResource_init ''N'' None None)) = Inl ValueError"
    using to_rst_bullet_content_raises_iff [of "Res (LectureResource_init ''N'' None None)"] res
    by simp
  moreover have "hasattr_to_rst ?lec"
    using to_rst_bullet_content_raises_iff [of ?lec] lec by simp
  moreover have "to_rst_bullet_content ?lec = Inl ValueError"
    using to_rst_bullet_content_raises_iff [of ?lec] lec by simp
  moreover have "to_rst_bullet_content (Eqn ''x'') = Inr ['':math:'' @ [backtick] @ ''x'' @ [backtick]]"
    using to_rst_bullet_content_raises_iff [of "Eqn ''x''"] eqn by simp
  ultimately show ?thesis using lec res eqn by blast
qed

subsection \<open>Termination of the renderers\<close>

lemma notes_tree_renderable:
  "notes_tree n \<Longrightarrow> renderable (Notes n)"
proof (induction n rule: notes_tree.induct)
  case (1 its t)
  have "renderable item" if item: "item \<in> set its" for item
  proof -
    from "1.prems" item
    have ok: "case item of Str s \<Rightarrow> True | Notes m \<Rightarrow> notes_tree m | _ \<Rightarrow> False"
      by (simp add: list_all_iff)
    show ?thesis
    proof (cases item)
      case (Notes m)
      with ok have "notes_tree m" by simp
      with item Notes show ?thesis by (simp add: "1.IH")
    qed (use ok in simp_all)
  qed
  then show ?case by (simp add: list_all_iff)
qed

lemma notes_tree_returns:
  assumes "notes_tree n"
  shows "\<exists>s. LectureNotes_to_rst n = Inr s"
proof -
  from assms have "renderable (Notes n)" by (rule notes_tree_renderable)
  then have "\<not> (\<exists>e. LectureNotes_to_rst n = Inl e)"
    by (simp only: not_renderable_iff(2) not_not)
  then show ?thesis
    by (cases "LectureNotes_to_rst n") auto
qed

lemma size_item_less:
  "item \<in> set (items n) \<Longrightarrow> size item < size n"
  by (cases n) (auto simp: less_Suc_eq_le size_list_estimation')

text \<open>
  Claim C5. Both renderers terminate on every notes tree: every input is in the domain of the
  recursion of \<^verbatim>\<open>to_models\<close> and of \<^verbatim>\<open>to_rst\<close> (the accessible part of the relation between
  a call and the calls it makes), because a recursive call is made on an item of the tree, which
  is strictly smaller than the tree. On a tree of strings and sub-notes \<^verbatim>\<open>to_rst\<close> returns a
  string; \<^verbatim>\<open>to_models\<close> raises nothing on any tree.
\<close>

theorem renderers_terminate:
  "LectureNotes_to_models_dom (n, top_model, sub_model) \<and>
   to_rst_bullet_content_LectureNotes_to_rst_dom (Inr n) \<and>
   to_rst_bullet_content_LectureNotes_to_rst_dom (Inl item) \<and>
   (\<forall>x \<in> set (items n). size x < size n) \<and>
   (notes_tree n \<longrightarrow> (\<exists>s. LectureNotes_to_rst n = Inr s))"
proof (intro conjI ballI impI)
  have "All LectureNotes_to_models_dom"
    by (relation "measure (\<lambda>(n, top_model, sub_model). size n)")
       (auto simp: less_Suc_eq_le
             dest: size_list_estimation' [where f = size and y = "size (Notes m)" for m])
  then show "LectureNotes_to_models_dom (n, top_model, sub_model)" by simp
  have "All to_rst_bullet_content_LectureNotes_to_rst_dom"
    by (relation "measure (\<lambda>v. case v of Inl item \<Rightarrow> size item | Inr n \<Rightarrow> size n)")
       (auto simp: less_Suc_eq_le size_list_estimation')
  then show "to_rst_bullet_content_LectureNotes_to_rst_dom (Inr n)"
    and "to_rst_bullet_content_LectureNotes_to_rst_dom (Inl item)" by simp_all
next
  fix x assume "x \<in> set (items n)"
  then show "size x < size n" by (rule size_item_less)
next
  assume "notes_tree n"
  then show "\<exists>s. LectureNotes_to_rst n = Inr s" by (rule notes_tree_returns)
qed

theorem renderers_terminate_witness:
  "notes_tree (LectureNotes [Str ''a'', Notes (LectureNotes [Str ''b''] ''inner'')] ''T'') \<and>
   LectureNotes_to_models_dom
     (LectureNotes [Str ''a'', Notes (LectureNotes [Str ''b''] ''inner'')] ''T'', Some Section, UnorderedList) \<and>
   to_rst_bullet_content_LectureNotes_to_rst_dom
     (Inr (LectureNotes [Str ''a'', Notes (LectureNotes [Str ''b''] ''inner'')] ''T'')) \<and>
   to_rst_bullet_content_LectureNotes_to_rst_dom
     (Inl (Seq [Str ''p'', Notes (LectureNotes [Str ''b''] ''inner'')])) \<and>
   size (Notes (LectureNotes [Str ''b''] ''inner''))
     < size (LectureNotes [Str ''a'', Notes (LectureNotes [Str ''b''] ''inner'')] ''T'') \<and>
   LectureNotes_to_rst (LectureNotes [Str ''a'', Notes (LectureNotes [Str ''b''] ''inner'')] ''T'')
     = Inr ([newline] @ ''- a'' @ [newline] @ ''- '' @ [newline] @ ''- b'' @ [newline] @ [newline])"
  using renderers_terminate [of "LectureNotes [Str ''a'', Notes (LectureNotes [Str ''b''] ''inner'')] ''T''"
      "Some Section" UnorderedList "Seq [Str ''p'', Notes (LectureNotes [Str ''b''] ''inner'')]"]
  by simp

end
